theory Spec2Isabelle
  imports Complex_Main "HOL-Library.Sublist"
begin

section \<open>Python values, errors and string helpers\<close>

text \<open>
  The scripts \<^verbatim>\<open>wo_updater.py\<close> and \<^verbatim>\<open>po_notifier.py\<close> read tables from an ERP
  system over HTTP and scan them. Every raise of the source is a value \<open>Inl e\<close> of the
  model: \<open>RequestError\<close> stands for any exception raised by an HTTP request or by the
  decoding of its answer, the other constructors are the Python exceptions of the same
  name. Quantities are Python floats in the source; the model reads a finite float as the
  rational it denotes. The arithmetic on the quantities of one step or one confirmation
  is exact in the model; where the source accumulates a total over the records of a loop
  (\<^verbatim>\<open>total_qty += \<dots>\<close> in \<^verbatim>\<open>get_yielded_date\<close>, \<^verbatim>\<open>prev_qty += \<dots>\<close> in
  \<^verbatim>\<open>merge_processing_data\<close>) the addition is the float addition \<open>fadd\<close> of the
  services below, which rounds and of which no law is assumed.
\<close>

datatype error = RequestError | IndexError | UnboundLocalError | AttributeError

text \<open>A table cell that holds either a string or a float.\<close>

datatype cell = Str string | Num rat

text \<open>\<^verbatim>\<open>xs[i]\<close> for a non-negative index.\<close>

definition item :: "'a list \<Rightarrow> nat \<Rightarrow> error + 'a" where
  "item xs i = (if i < length xs then Inr (xs ! i) else Inl IndexError)"

text \<open>\<^verbatim>\<open>sub in s\<close> on strings.\<close>

primrec contains :: "string \<Rightarrow> string \<Rightarrow> bool" where
  "contains sub [] = (sub = [])"
| "contains sub (c # cs) = (prefix sub (c # cs) \<or> contains sub cs)"

text \<open>\<^verbatim>\<open>s.startswith(t)\<close> for a tuple \<open>t\<close> of strings.\<close>

definition startswith :: "string \<Rightarrow> string list \<Rightarrow> bool" where
  "startswith s t = list_ex (\<lambda>p. prefix p s) t"

text \<open>\<^verbatim>\<open>str(n)\<close> for a non-negative integer.\<close>

definition digit :: "nat \<Rightarrow> char" where
  "digit n = ''0123456789'' ! n"

fun str :: "nat \<Rightarrow> string" where
  "str n = (if n < 10 then [digit n] else str (n div 10) @ [digit (n mod 10)])"

declare str.simps [simp del]

text \<open>\<^verbatim>\<open>s[-8:-3]\<close>.\<close>

definition slice_m8_m3 :: "string \<Rightarrow> string" where
  "slice_m8_m3 s = take ((length s - 3) - (length s - 8)) (drop (length s - 8) s)"

text \<open>\<^verbatim>\<open>sep.join(xs)\<close>.\<close>

fun join :: "string \<Rightarrow> string list \<Rightarrow> string" where
  "join sep [] = []"
| "join sep [x] = x"
| "join sep (x # y # ys) = x @ sep @ join sep (y # ys)"

text \<open>\<^verbatim>\<open>s.replace(old, new)\<close> for a non-empty \<open>old\<close>: left to right, without overlap.\<close>

function replace :: "string \<Rightarrow> string \<Rightarrow> string \<Rightarrow> string" where
  "replace old new s =
     (if old = [] \<or> s = [] then s
      else if prefix old s then new @ replace old new (drop (length old) s)
      else hd s # replace old new (tl s))"
  by pat_completeness auto
termination
  by (relation "measure (\<lambda>(old, new, s). length s)") auto

declare replace.simps [simp del]

section \<open>The ERP tables and the services behind the requests\<close>

text \<open>
  A row of the production center table (a routing step; row 0 is the header of the work
  order). The fields carry the names of the JSON fields the source reads: \<open>order\<close> is the
  work slip, \<open>art\<close> the product, \<open>artbez\<close> the description, \<open>frgmge\<close> the quantity to be
  released, \<open>ycomplete\<close> the yield, \<open>mrbqty\<close> the MRB quantity, \<open>rverlust\<close> the scrap
  (all as the text the service sends), \<open>vorgang\<close> the database id of the operation.
\<close>

record step =
  order_text :: string
  art :: string
  artbez :: string
  frgmge :: string
  ycomplete :: string
  mrbqty :: string
  rverlust :: string
  vorgang :: string

text \<open>A row of the completion confirmations Infosystem.\<close>

record cc_row =
  twonum :: string
  tdate :: string

text \<open>A completion confirmation of the work order database.\<close>

record cc_data =
  bumge :: string
  ymrbqty :: string
  ymrbqty_value :: rat
  verlust :: string
  abldat :: string
  stand :: string

text \<open>A line of a purchase order.\<close>

record po_line =
  ptext :: string
  artikel :: string

text \<open>
  Everything outside the scripts: \<open>atof\<close> is \<^verbatim>\<open>float(locale.atof(text))\<close> on the
  numeric text of the ERP, \<open>starting_strings\<close> is \<^verbatim>\<open>constants.STARTING_STRINGS\<close>, and
  each service maps the key of a request to its decoded answer or to the exception the
  request raises: \<open>cc_url\<close> the completion confirmations of an operation, \<open>wo_db_filed\<close>
  the ids of the filed confirmations of a work slip in filing order, \<open>wo_db\<close> one
  confirmation by id, \<open>po_url\<close> the lines of a purchase order, \<open>prod_center\<close> the
  production center table of a work order. \<open>fadd\<close> is the addition of two floats.
\<close>

record services =
  atof :: "string \<Rightarrow> rat"
  starting_strings :: "string list"
  cc_url :: "string \<Rightarrow> error + cc_row list"
  wo_db_filed :: "string \<Rightarrow> error + string list"
  wo_db :: "string \<Rightarrow> error + cc_data"
  po_url :: "string \<Rightarrow> error + po_line list"
  prod_center :: "string \<Rightarrow> error + step list"
  fadd :: "rat \<Rightarrow> rat \<Rightarrow> rat"

section \<open>wo_updater: the dates of completion confirmations\<close>

text \<open>
  The loop of \<^verbatim>\<open>get_cc_date\<close>; the accumulator is \<open>None\<close> while \<^verbatim>\<open>found\<close> is false and
  holds \<^verbatim>\<open>date\<close> afterwards.
\<close>

fun cc_date_loop :: "string \<Rightarrow> cc_row list \<Rightarrow> string option \<Rightarrow> string option" where
  "cc_date_loop work_slip [] found = found"
| "cc_date_loop work_slip (r # rs) found =
     (if twonum r = work_slip then cc_date_loop work_slip rs (Some (tdate r))
      else if found \<noteq> None then found
      else cc_date_loop work_slip rs found)"

definition get_cc_date :: "services \<Rightarrow> string \<Rightarrow> string \<Rightarrow> error + string" where
  "get_cc_date env database_id work_slip =
     (case cc_url env database_id of
        Inl e \<Rightarrow> Inl e
      | Inr cc_table \<Rightarrow>
          (case cc_date_loop work_slip cc_table None of
             Some date \<Rightarrow> Inr date
           | None \<Rightarrow> Inr ''No Completion Confirmation''))"

definition check_mrb_qty :: "services \<Rightarrow> string \<Rightarrow> error + (bool \<times> string)" where
  "check_mrb_qty env database_id =
     (case wo_db env database_id of
        Inl e \<Rightarrow> Inl e
      | Inr cc \<Rightarrow> if ymrbqty_value cc > 0 then Inr (True, stand cc) else Inr (False, ''N/A''))"

text \<open>
  The loop of \<^verbatim>\<open>get_mrb_date\<close> runs over the indices \<open>len - 1, \<dots>, 0\<close>: the list it is
  given here is the reversed list of ids.
\<close>

fun mrb_date_loop :: "services \<Rightarrow> string list \<Rightarrow> error + string" where
  "mrb_date_loop env [] = Inr ''No Completion Confirmation''"
| "mrb_date_loop env (database_id # ids) =
     (case check_mrb_qty env database_id of
        Inl e \<Rightarrow> Inl e
      | Inr mrb_tuple \<Rightarrow> if fst mrb_tuple then Inr (snd mrb_tuple) else mrb_date_loop env ids)"

definition get_mrb_date :: "services \<Rightarrow> string \<Rightarrow> error + string" where
  "get_mrb_date env work_slip =
     (case wo_db_filed env work_slip of
        Inl e \<Rightarrow> Inl e
      | Inr cc_metalist \<Rightarrow> mrb_date_loop env (rev cc_metalist))"

section \<open>wo_updater: in_quality\<close>

text \<open>
  The local variables of \<^verbatim>\<open>in_quality\<close> that live across loop iterations.
  \<open>prod_description\<close> is assigned in the backward scan only and read in the forward scan:
  it is \<open>None\<close> until the first assignment.
\<close>

record iq_state =
  in_qual :: bool
  qty :: cell
  date :: string
  progress :: string
  tentative :: bool
  qual_found :: bool
  mrb :: bool
  mrb_qty :: rat
  mrb_date :: string
  prod_description :: "string option"

definition iq_init :: iq_state where
  "iq_init = \<lparr>in_qual = False, qty = Str ''N/A'', date = ''N/A'', progress = ''N/A'',
     tentative = False, qual_found = False, mrb = False, mrb_qty = 0, mrb_date = ''N/A'',
     prod_description = None\<rparr>"

text \<open>
  The backward scan \<^verbatim>\<open>while j >= 1\<close> from the inspection step \<open>i\<close>; the argument is \<open>j\<close>.
  The branch of a step that is in quality has no \<^verbatim>\<open>break\<close>: the scan goes on to \<open>j - 1\<close>.
\<close>

fun iq_backward :: "services \<Rightarrow> step list \<Rightarrow> nat \<Rightarrow> rat \<Rightarrow> nat \<Rightarrow> iq_state \<Rightarrow> error + iq_state" where
  "iq_backward env prod_table i curr_sum 0 st = Inr st"
| "iq_backward env prod_table i curr_sum (Suc k) st =
     (let j = Suc k;
          this_yield = atof env (ycomplete (prod_table ! j));
          product = art (prod_table ! j);
          st1 = st\<lparr>prod_description := Some (artbez (prod_table ! j))\<rparr>
      in if artbez (prod_table ! j) \<noteq> ''1st Off'' \<and> \<not> contains ''CMM'' (artbez (prod_table ! j))
            \<and> startswith product (starting_strings env)
         then if this_yield \<le> curr_sum then Inr st1
              else (case get_cc_date env (vorgang (prod_table ! 0)) (order_text (prod_table ! i)) of
                      Inl e \<Rightarrow> Inl e
                    | Inr d \<Rightarrow>
                        iq_backward env prod_table i curr_sum k
                          (st1\<lparr>qty := Num (this_yield - curr_sum),
                               progress := str i @ ''/'' @ str (length prod_table - 1),
                               in_qual := True, qual_found := True, date := d\<rparr>))
         else iq_backward env prod_table i curr_sum k st1)"

text \<open>
  The forward scan \<^verbatim>\<open>while j < len(prod_table)\<close>. Its second filter reads
  \<^verbatim>\<open>prod_description\<close>, the variable the backward scan assigned last, and Python's
  \<^verbatim>\<open>and\<close> reads it only when the first filter holds.
\<close>

function iq_forward :: "services \<Rightarrow> step list \<Rightarrow> rat \<Rightarrow> nat \<Rightarrow> iq_state \<Rightarrow> error + iq_state" where
  "iq_forward env prod_table curr_yield j st =
     (if j < length prod_table then
        (let this_yield = atof env (ycomplete (prod_table ! j));
             product = art (prod_table ! j)
         in if artbez (prod_table ! j) \<noteq> ''1st Off'' then
              (case prod_description st of
                 None \<Rightarrow> Inl UnboundLocalError
               | Some pd \<Rightarrow>
                   if \<not> contains ''CMM'' pd \<and> startswith product (starting_strings env)
                   then if this_yield > curr_yield then Inr (st\<lparr>tentative := True\<rparr>)
                        else iq_forward env prod_table curr_yield (j + 1) st
                   else iq_forward env prod_table curr_yield (j + 1) st)
            else iq_forward env prod_table curr_yield (j + 1) st)
      else Inr st)"
  by pat_completeness auto
termination
  by (relation "measure (\<lambda>(env, prod_table, curr_yield, j, st). length prod_table - j)") auto

declare iq_forward.simps [simp del]

text \<open>The loop \<^verbatim>\<open>for i in range(1, len(prod_table))\<close>; a \<^verbatim>\<open>break\<close> returns the state.\<close>

function iq_loop :: "services \<Rightarrow> step list \<Rightarrow> nat \<Rightarrow> iq_state \<Rightarrow> error + iq_state" where
  "iq_loop env prod_table i st =
     (if i < length prod_table then
        (let description = artbez (prod_table ! i)
         in if atof env (mrbqty (prod_table ! i)) > 0 then
              Inr (st\<lparr>mrb := True,
                      mrb_qty := mrb_qty st + atof env (mrbqty (prod_table ! i)),
                      mrb_date := (case get_mrb_date env (order_text (prod_table ! i)) of
                                     Inl e \<Rightarrow> ''No Date''
                                   | Inr d \<Rightarrow> d)\<rparr>)
            else if (description = ''Inspection'' \<or> description = ''Final Inspection'')
                    \<and> \<not> qual_found st then
              (let curr_yield = atof env (ycomplete (prod_table ! i));
                   curr_mrb = atof env (mrbqty (prod_table ! i));
                   curr_scrap = atof env (rverlust (prod_table ! i));
                   curr_sum = curr_yield + curr_mrb + curr_scrap
               in case iq_backward env prod_table i curr_sum (i - 1) st of
                    Inl e \<Rightarrow> Inl e
                  | Inr st1 \<Rightarrow>
                      if in_qual st1 \<or> curr_yield = 0 then
                        (case iq_forward env prod_table curr_yield (i + 1) st1 of
                           Inl e \<Rightarrow> Inl e
                         | Inr st2 \<Rightarrow> iq_loop env prod_table (i + 1) st2)
                      else iq_loop env prod_table (i + 1) st1)
            else iq_loop env prod_table (i + 1) st)
      else Inr st)"
  by pat_completeness auto
termination
  by (relation "measure (\<lambda>(env, prod_table, i, st). length prod_table - i)") auto

declare iq_loop.simps [simp del]

text \<open>
  \<^verbatim>\<open>in_quality\<close> returns the tuple (status, quantity, date, progress, MRB flag, MRB
  quantity, MRB date); status 2 is a confirmed quality entry, 1 a tentative one, 0 none.
\<close>

definition in_quality ::
  "services \<Rightarrow> step list \<Rightarrow> error + (nat \<times> cell \<times> string \<times> string \<times> bool \<times> rat \<times> string)" where
  "in_quality env prod_table =
     (case iq_loop env prod_table 1 iq_init of
        Inl e \<Rightarrow> Inl e
      | Inr st \<Rightarrow>
          (let qual_status = (if tentative st \<and> in_qual st then 1 else if in_qual st then 2 else 0)
           in Inr (qual_status, qty st, date st, progress st, mrb st, mrb_qty st, mrb_date st)))"

section \<open>wo_updater: get_yield\<close>

definition get_yield_data :: "services \<Rightarrow> string \<Rightarrow> error + (rat \<times> string \<times> string)" where
  "get_yield_data env database_id =
     (case wo_db env database_id of
        Inl e \<Rightarrow> Inl e
      | Inr cc \<Rightarrow>
          Inr (atof env (bumge cc) + atof env (ymrbqty cc) + atof env (verlust cc),
               abldat cc, slice_m8_m3 (stand cc)))"

text \<open>
  What \<^verbatim>\<open>get_yielded_date\<close> returns: the bare string \<^verbatim>\<open>"ERROR"\<close> for an empty work
  slip, a pair of strings otherwise. The caller reads the result by index, and the index
  of a string is a one-character string.
\<close>

datatype yielded = ErrorStr | DateStamp string string

fun item0 :: "yielded \<Rightarrow> string" where
  "item0 ErrorStr = ''E''"
| "item0 (DateStamp d t) = d"

fun item1 :: "yielded \<Rightarrow> string" where
  "item1 ErrorStr = ''R''"
| "item1 (DateStamp d t) = t"

text \<open>
  The loop of \<^verbatim>\<open>get_yielded_date\<close> over the indices \<open>len - 1, \<dots>, 0\<close>; the list is the
  reversed list of ids, the other arguments are \<^verbatim>\<open>total_qty\<close>, \<^verbatim>\<open>latest_date\<close> and
  \<^verbatim>\<open>timestamp\<close>.
\<close>

fun yielded_loop ::
  "services \<Rightarrow> rat \<Rightarrow> string list \<Rightarrow> rat \<Rightarrow> string \<Rightarrow> string \<Rightarrow> error + yielded" where
  "yielded_loop env sum_qty [] total_qty latest_date timestamp = Inr (DateStamp ''ERROR'' ''N/A'')"
| "yielded_loop env sum_qty (database_id # ids) total_qty latest_date timestamp =
     (case get_yield_data env database_id of
        Inl e \<Rightarrow> Inl e
      | Inr yield_tuple \<Rightarrow>
          (let total_qty' = fadd env total_qty (fst yield_tuple);
               fresh = (latest_date = [] \<and> fst yield_tuple \<noteq> 0);
               latest_date' = (if fresh then fst (snd yield_tuple) else latest_date);
               timestamp' = (if fresh then snd (snd yield_tuple) else timestamp)
           in if total_qty' = sum_qty then Inr (DateStamp latest_date' timestamp')
              else yielded_loop env sum_qty ids total_qty' latest_date' timestamp'))"

definition get_yielded_date :: "services \<Rightarrow> string \<Rightarrow> rat \<Rightarrow> error + yielded" where
  "get_yielded_date env work_slip sum_qty =
     (if work_slip = [] then Inr ErrorStr
      else (case wo_db_filed env work_slip of
              Inl e \<Rightarrow> Inl e
            | Inr cc_metalist \<Rightarrow> yielded_loop env sum_qty (rev cc_metalist) 0 [] []))"

type_synonym yield_result = "bool \<times> string \<times> string \<times> string \<times> string \<times> string"

definition no_yield :: yield_result where
  "no_yield = (False, ''N/A'', ''N/A'', ''N/A'', ''N/A'', ''N/A'')"

text \<open>The loop \<^verbatim>\<open>for i in range(len(prod_table) - 1, 0, -1)\<close>; the last argument is \<open>i\<close>,
  \<open>on_date\<close> is the parameter \<^verbatim>\<open>date\<close>.\<close>

fun gy_loop :: "services \<Rightarrow> step list \<Rightarrow> string \<Rightarrow> nat \<Rightarrow> error + yield_result" where
  "gy_loop env prod_table on_date 0 = Inr no_yield"
| "gy_loop env prod_table on_date (Suc k) =
     (let i = Suc k
      in if atof env (frgmge (prod_table ! i)) \<le> 0 then
           (let work_slip = order_text (prod_table ! i);
                row_sum = atof env (ycomplete (prod_table ! i))
                          + atof env (mrbqty (prod_table ! i))
                          + atof env (rverlust (prod_table ! i))
            in case get_yielded_date env work_slip row_sum of
                 Inl e \<Rightarrow> Inl e
               | Inr yield_tuple \<Rightarrow>
                   if item0 yield_tuple = on_date then
                     (let process = artbez (prod_table ! i);
                          qty = ycomplete (prod_table ! i)
                      in case (if i = length prod_table - 1 then Inr ''None''
                               else (case item prod_table (i + 1) of
                                       Inl e \<Rightarrow> Inl e
                                     | Inr s1 \<Rightarrow>
                                         if artbez s1 = ''1st Off'' then
                                           (case item prod_table (i + 2) of
                                              Inl e \<Rightarrow> Inl e
                                            | Inr s2 \<Rightarrow> Inr (artbez s2))
                                         else Inr (artbez s1))) of
                           Inl e \<Rightarrow> Inl e
                         | Inr next_op \<Rightarrow>
                             Inr (True, work_slip, process, qty, next_op, item1 yield_tuple))
                   else Inr no_yield)
         else gy_loop env prod_table on_date k)"

definition get_yield :: "services \<Rightarrow> step list \<Rightarrow> string \<Rightarrow> error + yield_result" where
  "get_yield env prod_table on_date = gy_loop env prod_table on_date (length prod_table - 1)"

section \<open>The confirmation scan as the specification words it\<close>





text \<open>The yield tuples among some answers.\<close>

definition answered :: "(error + 'a) list \<Rightarrow> 'a list" where
  "answered ans = concat (map (\<lambda>a. case a of Inl e \<Rightarrow> [] | Inr r \<Rightarrow> [r]) ans)"




section \<open>po_notifier: merge_processing_data\<close>

text \<open>
  A row of the processing table has eight cells, read by position in the source:
  0 the purchase order, 1 the supplier, 2 the description, 3 the process, 4 the database
  id of the purchase order (overwritten with the work orders), 5 the receipt location,
  6 the quantity (text, overwritten with a float when rows are merged), 7 the next
  process.
\<close>

record row =
  col0 :: string
  col1 :: string
  col2 :: string
  col3 :: string
  col4 :: string
  col5 :: string
  col6 :: cell
  col7 :: string

text \<open>\<^verbatim>\<open>float(locale.atof(c))\<close> on a cell: \<^verbatim>\<open>locale.atof\<close> calls \<^verbatim>\<open>replace\<close> on its argument.\<close>

definition cell_atof :: "services \<Rightarrow> cell \<Rightarrow> error + rat" where
  "cell_atof env c = (case c of Str s \<Rightarrow> Inr (atof env s) | Num r \<Rightarrow> Inl AttributeError)"


fun wo_nums_loop :: "po_line list \<Rightarrow> string \<Rightarrow> string list \<Rightarrow> string list" where
  "wo_nums_loop [] process wo_list = wo_list"
| "wo_nums_loop (r # table) process wo_list =
     (if contains ''WO'' (ptext r) \<and> artikel r = process
      then wo_nums_loop table process (wo_list @ [replace ''WO '' [] (ptext r)])
      else wo_nums_loop table process wo_list)"

definition get_wo_nums :: "services \<Rightarrow> string \<Rightarrow> string \<Rightarrow> error + string list" where
  "get_wo_nums env database_id process =
     (case po_url env database_id of
        Inl e \<Rightarrow> Inl e
      | Inr table \<Rightarrow> Inr (wo_nums_loop table process []))"

text \<open>The loop \<^verbatim>\<open>for i in range(1, len(table))\<close> of \<^verbatim>\<open>get_next_process\<close>.\<close>

function next_process_loop :: "step list \<Rightarrow> string \<Rightarrow> nat \<Rightarrow> error + string" where
  "next_process_loop table process i =
     (if i < length table then
        (if art (table ! i) = process then
           (if i = length table - 1 then Inr ''None''
            else (case item table (i + 1) of
                    Inl e \<Rightarrow> Inl e
                  | Inr s1 \<Rightarrow>
                      if artbez s1 = ''1st Off'' then
                        (case item table (i + 2) of
                           Inl e \<Rightarrow> Inl e
                         | Inr s2 \<Rightarrow> Inr (artbez s2))
                      else Inr (artbez s1)))
         else next_process_loop table process (i + 1))
      else Inr ''Not Found'')"
  by pat_completeness auto
termination
  by (relation "measure (\<lambda>(table, process, i). length table - i)") auto

declare next_process_loop.simps [simp del]

definition get_next_process :: "services \<Rightarrow> string \<Rightarrow> string \<Rightarrow> error + string" where
  "get_next_process env wo_num process =
     (case prod_center env wo_num of
        Inl e \<Rightarrow> Inl e
      | Inr table \<Rightarrow> next_process_loop table process 1)"

text \<open>
  The enrichment lookups \<^verbatim>\<open>merge_processing_data\<close> calls, with their arguments; the model
  records them in the order of the calls.
\<close>

datatype lookup = GetWoNums string string | GetNextProcess string string

text \<open>
  The local variables of \<^verbatim>\<open>merge_processing_data\<close>. The source appends the row object
  \<^verbatim>\<open>data[prev_row]\<close> itself to \<^verbatim>\<open>merged_data\<close> and then writes into it: \<open>data\<close> is the store
  of the rows and \<open>merged_data\<close> holds the positions of the appended rows in it.
  \<open>curr_loc\<close> and \<open>curr_qty\<close> are \<open>None\<close> until their first assignment.
\<close>

record merge_state =
  data :: "row list"
  merged_data :: "nat list"
  prev_pn :: string
  prev_loc :: string
  prev_qty :: rat
  prev_row :: nat
  merged :: bool
  curr_pn :: string
  curr_loc :: "string option"
  curr_qty :: "rat option"
  lookups :: "lookup list"

text \<open>The \<^verbatim>\<open>else\<close> branch of the loop body at index \<open>i\<close>: the current group is emitted.\<close>

definition emit :: "services \<Rightarrow> nat \<Rightarrow> merge_state \<Rightarrow> error + merge_state" where
  "emit env i st =
     (let p = prev_row st;
          st1 = st\<lparr>merged_data := merged_data st @ [p],
                   lookups := lookups st @ [GetWoNums (col4 (data st ! p)) (col3 (data st ! p))]\<rparr>
      in case get_wo_nums env (col4 (data st ! p)) (col3 (data st ! p)) of
           Inl e \<Rightarrow> Inl e
         | Inr wo_list \<Rightarrow>
             (let st2 = st1\<lparr>data := (data st1)[p := (data st1 ! p)\<lparr>col4 := join '', '' wo_list\<rparr>]\<rparr>
              in case item wo_list 0 of
                   Inl e \<Rightarrow> Inl e
                 | Inr wo_num \<Rightarrow>
                     (let st3 = st2\<lparr>lookups := lookups st2 @ [GetNextProcess wo_num (col3 (data st2 ! p))]\<rparr>
                      in case get_next_process env wo_num (col3 (data st2 ! p)) of
                           Inl e \<Rightarrow> Inl e
                         | Inr next_op \<Rightarrow>
                             (let st4 = st3\<lparr>data := (data st3)[p := (data st3 ! p)\<lparr>col7 := next_op\<rparr>]\<rparr>;
                                  st5 = (if merged st4
                                         then st4\<lparr>data := (data st4)[p := (data st4 ! p)\<lparr>col6 := Num (prev_qty st4)\<rparr>],
                                                  merged := False\<rparr>
                                         else st4)
                              in if curr_pn st5 \<noteq> ''No Value'' then
                                   (case (curr_loc st5, curr_qty st5) of
                                      (Some l, Some q) \<Rightarrow>
                                        Inr (st5\<lparr>prev_pn := curr_pn st5, prev_loc := l,
                                                 prev_qty := q, prev_row := i\<rparr>)
                                    | _ \<Rightarrow> Inl UnboundLocalError)
                                 else Inr st5))))"

text \<open>
  The loop \<^verbatim>\<open>for i in range(1, len(data) + 1)\<close>; \<open>n\<close> is \<^verbatim>\<open>len(data)\<close>, which the loop
  does not change.
\<close>

function merge_loop :: "services \<Rightarrow> nat \<Rightarrow> nat \<Rightarrow> merge_state \<Rightarrow> error + merge_state" where
  "merge_loop env n i st =
     (if i < n + 1 then
        (case (if i < n then
                 (case cell_atof env (col6 (data st ! i)) of
                    Inl e \<Rightarrow> Inl e
                  | Inr q \<Rightarrow> Inr (st\<lparr>curr_pn := col3 (data st ! i),
                                    curr_loc := Some (col5 (data st ! i)),
                                    curr_qty := Some q\<rparr>))
               else Inr st) of
           Inl e \<Rightarrow> Inl e
         | Inr st1 \<Rightarrow>
             if i < n \<and> curr_pn st1 = prev_pn st1 \<and> curr_loc st1 = Some (prev_loc st1) then
               (case curr_qty st1 of
                  None \<Rightarrow> Inl UnboundLocalError
                | Some q \<Rightarrow>
                    merge_loop env n (i + 1)
                      (st1\<lparr>prev_qty := fadd env (prev_qty st1) q, merged := True\<rparr>))
             else (case emit env i st1 of
                     Inl e \<Rightarrow> Inl e
                   | Inr st2 \<Rightarrow> merge_loop env n (i + 1) st2))
      else Inr st)"
  by pat_completeness auto
termination
  by (relation "measure (\<lambda>(env, n, i, st). n + 1 - i)") auto

declare merge_loop.simps [simp del]

text \<open>
  \<^verbatim>\<open>merge_processing_data\<close> returns the merged rows; the model returns the recorded
  lookups beside them.
\<close>

definition merge_processing_data :: "services \<Rightarrow> row list \<Rightarrow> error + (row list \<times> lookup list)" where
  "merge_processing_data env rows =
     (case item rows 0 of
        Inl e \<Rightarrow> Inl e
      | Inr r0 \<Rightarrow>
          (case cell_atof env (col6 r0) of
             Inl e \<Rightarrow> Inl e
           | Inr q0 \<Rightarrow>
               (case merge_loop env (length rows) 1
                       \<lparr>data = rows, merged_data = [], prev_pn = col3 r0, prev_loc = col5 r0,
                        prev_qty = q0, prev_row = 0, merged = False, curr_pn = ''No Value'',
                        curr_loc = None, curr_qty = None, lookups = []\<rparr> of
                  Inl e \<Rightarrow> Inl e
                | Inr st \<Rightarrow> Inr (map (\<lambda>p. data st ! p) (merged_data st), lookups st))))"


section \<open>Example tables and services\<close>

text \<open>
  A small ERP for the concrete cases below: the numeric texts it uses, one product family,
  the confirmations of three work slips, two purchase orders and one routing. Its
  quantities are small integers, on which the float addition is exact.
\<close>

definition ex_atof :: "string \<Rightarrow> rat" where
  "ex_atof s =
     (case map_of [(''3'', 3), (''5'', 5), (''10'', 10), (''15'', 15), (''40'', 40),
                   (''50'', 50), (''100'', 100), (''200'', 200)] s of
        Some q \<Rightarrow> q
      | None \<Rightarrow> 0)"

definition ex_step :: "string \<Rightarrow> string \<Rightarrow> string \<Rightarrow> string \<Rightarrow> string \<Rightarrow> step" where
  "ex_step work_slip description released completed flagged =
     \<lparr>order_text = work_slip, art = ''DDS-100'', artbez = description, frgmge = released,
      ycomplete = completed, mrbqty = flagged, rverlust = ''0'', vorgang = ''70001''\<rparr>"

definition ex_header :: step where
  "ex_header = ex_step ''WO-1'' ''Bracket'' ''0'' ''0'' ''0''"

definition ex_cc :: "string \<Rightarrow> string \<Rightarrow> string \<Rightarrow> cc_data" where
  "ex_cc quantity filed_on changed =
     \<lparr>bumge = quantity, ymrbqty = ''0'', ymrbqty_value = 0, verlust = ''0'',
      abldat = filed_on, stand = changed\<rparr>"

definition ex_row :: "string \<Rightarrow> string \<Rightarrow> row" where
  "ex_row po_id quantity =
     \<lparr>col0 = ''4500'', col1 = ''ACME'', col2 = ''Bracket'', col3 = ''ANODIZE'', col4 = po_id,
      col5 = ''PROCESSING'', col6 = Str quantity, col7 = ''-''\<rparr>"

definition ex_env :: services where
  "ex_env =
     \<lparr>atof = ex_atof,
      starting_strings = [''DDS''],
      cc_url = (\<lambda>k. if k = ''70001'' then Inr [\<lparr>twonum = ''WS-3'', tdate = ''01/02/24''\<rparr>]
                     else Inl RequestError),
      wo_db_filed = (\<lambda>k. if k = ''WS-1'' then Inr [''c1'', ''c2'']
                          else if k = ''WS-9'' then Inr [''c1'', ''c3'']
                          else Inr []),
      wo_db = (\<lambda>k. if k = ''c1'' then Inr (ex_cc ''5'' ''01/01/24'' ''01/01/24 09:00:00'')
                    else if k = ''c2'' then Inr (ex_cc ''5'' ''01/02/24'' ''01/02/24 10:30:00'')
                    else if k = ''c3'' then Inr (ex_cc ''5'' [] ''01/02/24 10:30:00'')
                    else Inl RequestError),
      po_url = (\<lambda>k. if k = ''PO1'' then Inr [\<lparr>ptext = ''WO 1234'', artikel = ''ANODIZE''\<rparr>]
                     else if k = ''PO2'' then Inr [\<lparr>ptext = ''Rush order'', artikel = ''ANODIZE''\<rparr>]
                     else Inl RequestError),
      prod_center = (\<lambda>k. if k = ''1234''
                          then Inr [ex_header,
                                    (ex_step ''WS-1'' ''Anodize'' ''0'' ''10'' ''0'')\<lparr>art := ''ANODIZE''\<rparr>,
                                    ex_step ''WS-2'' ''Inspection'' ''5'' ''0'' ''0'']
                          else Inl RequestError),
      fadd = (\<lambda>a b. a + b)\<rparr>"

text \<open>The same ERP with the confirmation services down.\<close>

definition ex_env_down :: services where
  "ex_env_down = ex_env\<lparr>cc_url := (\<lambda>k. Inl RequestError), wo_db_filed := (\<lambda>k. Inl RequestError)\<rparr>"


lemmas ex_defs = ex_atof_def ex_step_def ex_header_def ex_cc_def ex_row_def ex_env_def ex_env_down_def

lemmas iq_defs = in_quality_def iq_loop.simps iq_forward.simps iq_init_def get_cc_date_def
  get_mrb_date_def check_mrb_qty_def startswith_def str.simps digit_def

section \<open>in_quality: the backward scan\<close>

text \<open>
  C1. The claim: the backward scan ends at the first prior step that is not skipped, and
  the quantity in quality is that step's completed quantity less \<open>curr_sum\<close>. On the table
  header, Sawing (200 completed), Drilling (100 completed), Inspection (40 completed) the
  first such step is Drilling, so the claim gives 60. The source has no \<^verbatim>\<open>break\<close> after it
  finds the step in quality: it goes on to Sawing and overwrites the quantity with
  200 - 40 = 160.
\<close>

theorem C1_backward_scan_goes_on:
  "in_quality ex_env
     [ex_header,
      ex_step ''WS-1'' ''Sawing'' ''0'' ''200'' ''0'',
      ex_step ''WS-2'' ''Drilling'' ''0'' ''100'' ''0'',
      ex_step ''WS-3'' ''Inspection'' ''0'' ''40'' ''0'']
   = Inr (2, Num 160, ''01/02/24'', ''3/3'', False, 0, ''N/A'')"
  by (simp add: iq_defs ex_defs)

section \<open>in_quality: the forward scan\<close>

text \<open>
  C2. The claim: the forward scan skips a step whose own description contains CMM. On the
  table header, Drilling (100), Inspection (40), CMM Check (50) the only later step is a
  CMM step, so the claim gives a confirmed entry (status 2). The source tests
  \<^verbatim>\<open>prod_description\<close>, which still holds Drilling from the backward scan: the CMM step is
  compared and the entry is tentative (status 1).
\<close>

theorem C2_forward_scan_reads_stale_description:
  "in_quality ex_env
     [ex_header,
      ex_step ''WS-2'' ''Drilling'' ''0'' ''100'' ''0'',
      ex_step ''WS-3'' ''Inspection'' ''0'' ''40'' ''0'',
      ex_step ''WS-4'' ''CMM Check'' ''0'' ''50'' ''0'']
   = Inr (1, Num 60, ''01/02/24'', ''2/3'', False, 0, ''N/A'')"
  by (simp add: iq_defs ex_defs)

section \<open>in_quality: failing lookups\<close>

text \<open>
  C4. The claim: a failing lookup of the MRB date or of the quality entry date gives a
  sentinel date and a complete result. With the confirmation services down, the MRB date
  of the first table is the sentinel \<^verbatim>\<open>No Date\<close>, as claimed; on the second table the
  lookup of the quality entry date is not guarded and \<^verbatim>\<open>in_quality\<close> raises.
\<close>

theorem C4_quality_date_lookup_not_guarded:
  "in_quality ex_env_down
     [ex_header, ex_step ''WS-2'' ''Drilling'' ''0'' ''100'' ''5'']
   = Inr (0, Str ''N/A'', ''N/A'', ''N/A'', True, 5, ''No Date'')
   \<and> in_quality ex_env_down
       [ex_header,
        ex_step ''WS-2'' ''Drilling'' ''0'' ''100'' ''0'',
        ex_step ''WS-3'' ''Inspection'' ''0'' ''40'' ''0'']
     = Inl RequestError"
  by (simp add: iq_defs ex_defs)

section \<open>in_quality: the scenario of the specification\<close>

text \<open>
  C5. On the table header, 1st Off (0 completed), Drilling (100 completed), Inspection
  (40 completed, no MRB quantity, no scrap), where neither earlier step carries an MRB
  quantity and the product of the Drilling step starts with an accepted prefix,
  \<^verbatim>\<open>in_quality\<close> returns status 2 (confirmed), quantity 60 and progress 3/3; the date is
  what the lookup of the completion confirmation answers.
\<close>

theorem C5_scenario:
  assumes "artbez s1 = ''1st Off''" and "atof env (ycomplete s1) = 0"
    and "atof env (mrbqty s1) = 0"
    and "artbez s2 = ''Drilling''" and "atof env (ycomplete s2) = 100"
    and "atof env (mrbqty s2) = 0"
    and "artbez s3 = ''Inspection''" and "atof env (ycomplete s3) = 40"
    and "atof env (mrbqty s3) = 0" and "atof env (rverlust s3) = 0"
    and "startswith (art s1) (starting_strings env)"
    and "startswith (art s2) (starting_strings env)"
    and "startswith (art s3) (starting_strings env)"
    and "get_cc_date env (vorgang h) (order_text s3) = Inr d"
  shows "in_quality env [h, s1, s2, s3] = Inr (2, Num 60, d, ''3/3'', False, 0, ''N/A'')"
  using assms
  by (simp add: in_quality_def iq_loop.simps iq_forward.simps iq_init_def str.simps digit_def)

theorem C5_scenario_witness:
  "in_quality ex_env
     [ex_header,
      ex_step ''WS-1'' ''1st Off'' ''0'' ''0'' ''0'',
      ex_step ''WS-2'' ''Drilling'' ''0'' ''100'' ''0'',
      ex_step ''WS-3'' ''Inspection'' ''0'' ''40'' ''0'']
   = Inr (2, Num 60, ''01/02/24'', ''3/3'', False, 0, ''N/A'')"
  by (rule C5_scenario) (simp_all add: ex_defs startswith_def get_cc_date_def)

section \<open>in_quality: an MRB quantity ends the pass\<close>

lemma iq_loop_mrb:
  assumes "i < length tbl" and "0 < atof env (mrbqty (tbl ! i))"
  shows "iq_loop env tbl i st =
           Inr (st\<lparr>mrb := True, mrb_qty := mrb_qty st + atof env (mrbqty (tbl ! i)),
                   mrb_date := (case get_mrb_date env (order_text (tbl ! i)) of
                                  Inl e \<Rightarrow> ''No Date'' | Inr d \<Rightarrow> d)\<rparr>)"
  using assms by (subst iq_loop.simps) simp

lemma iq_loop_plain_step:
  assumes "k < length tbl" and "\<not> 0 < atof env (mrbqty (tbl ! k))"
    and "artbez (tbl ! k) \<noteq> ''Inspection''" and "artbez (tbl ! k) \<noteq> ''Final Inspection''"
  shows "iq_loop env tbl k st = iq_loop env tbl (Suc k) st"
  using assms by (subst iq_loop.simps) simp

lemma iq_loop_skip:
  assumes "k \<le> i" and "i < length tbl"
    and "\<forall>m. k \<le> m \<and> m < i \<longrightarrow>
           \<not> 0 < atof env (mrbqty (tbl ! m)) \<and> artbez (tbl ! m) \<noteq> ''Inspection''
           \<and> artbez (tbl ! m) \<noteq> ''Final Inspection''"
  shows "iq_loop env tbl k st = iq_loop env tbl i st"
  using assms
proof (induction "i - k" arbitrary: k)
  case 0
  then show ?case by simp
next
  case (Suc d)
  then have lt: "k < i" by arith
  with Suc.prems have here: "\<not> 0 < atof env (mrbqty (tbl ! k))"
      "artbez (tbl ! k) \<noteq> ''Inspection''" "artbez (tbl ! k) \<noteq> ''Final Inspection''"
    by auto
  from lt Suc.prems have "k < length tbl" by arith
  then have "iq_loop env tbl k st = iq_loop env tbl (Suc k) st"
    using here by (rule iq_loop_plain_step)
  also have "\<dots> = iq_loop env tbl i st"
  proof (rule Suc.hyps(1))
    show "d = i - Suc k" using Suc.hyps(2) by arith
    show "Suc k \<le> i" using lt by arith
    show "i < length tbl" by (rule Suc.prems(2))
    show "\<forall>m. Suc k \<le> m \<and> m < i \<longrightarrow>
           \<not> 0 < atof env (mrbqty (tbl ! m)) \<and> artbez (tbl ! m) \<noteq> ''Inspection''
           \<and> artbez (tbl ! m) \<noteq> ''Final Inspection''"
      using Suc.prems(3) by auto
  qed
  finally show ?case .
qed

lemma in_quality_mrb_first:
  assumes "1 \<le> i" and "i < length tbl" and "0 < atof env (mrbqty (tbl ! i))"
    and "\<forall>m. 1 \<le> m \<and> m < i \<longrightarrow>
           \<not> 0 < atof env (mrbqty (tbl ! m)) \<and> artbez (tbl ! m) \<noteq> ''Inspection''
           \<and> artbez (tbl ! m) \<noteq> ''Final Inspection''"
  shows "in_quality env tbl =
           Inr (0, Str ''N/A'', ''N/A'', ''N/A'', True, atof env (mrbqty (tbl ! i)),
                (case get_mrb_date env (order_text (tbl ! i)) of
                   Inl e \<Rightarrow> ''No Date'' | Inr d \<Rightarrow> d))"
proof -
  have "iq_loop env tbl 1 iq_init = iq_loop env tbl i iq_init"
    using assms(1,2,4) by (rule iq_loop_skip)
  then show ?thesis
    using assms(2,3) by (simp add: in_quality_def iq_loop_mrb iq_init_def)
qed

text \<open>
  C6. When step \<open>i\<close> is the only step with an MRB quantity and stands before every
  Inspection and Final Inspection step, \<^verbatim>\<open>in_quality\<close> returns status 0 (not in quality)
  with the MRB flag set and the MRB quantity of step \<open>i\<close>; the MRB date is the answer of
  the lookup, or \<^verbatim>\<open>No Date\<close> when it raises. The pass ends at \<open>i\<close>: the result is the
  same whatever steps \<open>later\<close> stand after it.
\<close>

theorem C6_mrb_ends_the_pass:
  assumes "1 \<le> i" and "i < length tbl" and "0 < atof env (mrbqty (tbl ! i))"
    and "\<forall>k. 1 \<le> k \<and> k < length tbl \<and> k \<noteq> i \<longrightarrow> atof env (mrbqty (tbl ! k)) \<le> 0"
    and "\<forall>k. 1 \<le> k \<and> k < length tbl
           \<and> (artbez (tbl ! k) = ''Inspection'' \<or> artbez (tbl ! k) = ''Final Inspection'')
           \<longrightarrow> i < k"
  shows "in_quality env tbl =
           Inr (0, Str ''N/A'', ''N/A'', ''N/A'', True, atof env (mrbqty (tbl ! i)),
                (case get_mrb_date env (order_text (tbl ! i)) of
                   Inl e \<Rightarrow> ''No Date'' | Inr d \<Rightarrow> d))
         \<and> in_quality env (take (Suc i) tbl @ later) = in_quality env tbl"
proof -
  have before: "\<forall>m. 1 \<le> m \<and> m < i \<longrightarrow>
           \<not> 0 < atof env (mrbqty (tbl ! m)) \<and> artbez (tbl ! m) \<noteq> ''Inspection''
           \<and> artbez (tbl ! m) \<noteq> ''Final Inspection''"
  proof (intro allI impI)
    fix m assume m: "1 \<le> m \<and> m < i"
    with assms(2) have "m < length tbl" "m \<noteq> i" by auto
    with m assms(4) have "atof env (mrbqty (tbl ! m)) \<le> 0" by blast
    moreover have "artbez (tbl ! m) \<noteq> ''Inspection''" "artbez (tbl ! m) \<noteq> ''Final Inspection''"
      using assms(5) m \<open>m < length tbl\<close> by (metis less_asym)+
    ultimately show "\<not> 0 < atof env (mrbqty (tbl ! m)) \<and> artbez (tbl ! m) \<noteq> ''Inspection''
           \<and> artbez (tbl ! m) \<noteq> ''Final Inspection''" by simp
  qed
  let ?t = "take (Suc i) tbl @ later"
  have same: "\<And>m. m \<le> i \<Longrightarrow> ?t ! m = tbl ! m"
    using assms(2) by (simp add: nth_append)
  have whole: "in_quality env tbl =
           Inr (0, Str ''N/A'', ''N/A'', ''N/A'', True, atof env (mrbqty (tbl ! i)),
                (case get_mrb_date env (order_text (tbl ! i)) of
                   Inl e \<Rightarrow> ''No Date'' | Inr d \<Rightarrow> d))"
    using assms(1,2,3) before by (rule in_quality_mrb_first)
  have "in_quality env ?t =
           Inr (0, Str ''N/A'', ''N/A'', ''N/A'', True, atof env (mrbqty (?t ! i)),
                (case get_mrb_date env (order_text (?t ! i)) of
                   Inl e \<Rightarrow> ''No Date'' | Inr d \<Rightarrow> d))"
  proof (rule in_quality_mrb_first)
    show "1 \<le> i" by (rule assms(1))
    show "i < length ?t" using assms(2) by simp
    show "0 < atof env (mrbqty (?t ! i))" using assms(3) same by simp
    show "\<forall>m. 1 \<le> m \<and> m < i \<longrightarrow>
           \<not> 0 < atof env (mrbqty (?t ! m)) \<and> artbez (?t ! m) \<noteq> ''Inspection''
           \<and> artbez (?t ! m) \<noteq> ''Final Inspection''"
      using before same by simp
  qed
  then have "in_quality env ?t = in_quality env tbl"
    using whole same by simp
  with whole show ?thesis by simp
qed

theorem C6_mrb_ends_the_pass_witness:
  "in_quality ex_env
     [ex_header,
      ex_step ''WS-1'' ''Drilling'' ''0'' ''100'' ''5'',
      ex_step ''WS-2'' ''Inspection'' ''0'' ''40'' ''0'']
   = Inr (0, Str ''N/A'', ''N/A'', ''N/A'', True, 5, ''No Completion Confirmation'')
   \<and> in_quality ex_env
       [ex_header,
        ex_step ''WS-1'' ''Drilling'' ''0'' ''100'' ''5'',
        ex_step ''WS-3'' ''Final Inspection'' ''0'' ''200'' ''0'']
     = in_quality ex_env
         [ex_header,
          ex_step ''WS-1'' ''Drilling'' ''0'' ''100'' ''5'',
          ex_step ''WS-2'' ''Inspection'' ''0'' ''40'' ''0'']"
  using C6_mrb_ends_the_pass [of 1
      "[ex_header, ex_step ''WS-1'' ''Drilling'' ''0'' ''100'' ''5'',
        ex_step ''WS-2'' ''Inspection'' ''0'' ''40'' ''0'']"
      ex_env "[ex_step ''WS-3'' ''Final Inspection'' ''0'' ''200'' ''0'']"]
  by (simp add: ex_defs get_mrb_date_def check_mrb_qty_def less_Suc_eq nth_Cons')

section \<open>get_yield: tables without a fully released step\<close>

lemma gy_loop_none:
  assumes "\<forall>i. 1 \<le> i \<and> i \<le> k \<longrightarrow> 0 < atof env (frgmge (tbl ! i))"
  shows "gy_loop env tbl d k = Inr no_yield"
  using assms
proof (induction k)
  case 0
  then show ?case by simp
next
  case (Suc k)
  then have "0 < atof env (frgmge (tbl ! Suc k))" by simp
  moreover have "gy_loop env tbl d k = Inr no_yield"
    using Suc by simp
  ultimately show ?case by simp
qed

text \<open>
  C3. The claim: on a table whose last step has released quantity 5, \<^verbatim>\<open>get_yield\<close>
  reports no match, whatever the date. The loop passes over a step that is not fully
  released and goes on to the step before it: on the table header, Drilling (released 0,
  completed 10), Inspection (released 5) the Drilling step is matched for the date of its
  latest confirmation.
\<close>

theorem C3_counterexample:
  "atof ex_env (frgmge (last
       [ex_header,
        ex_step ''WS-1'' ''Drilling'' ''0'' ''10'' ''0'',
        ex_step ''WS-2'' ''Inspection'' ''5'' ''0'' ''0''])) = 5
   \<and> get_yield ex_env
       [ex_header,
        ex_step ''WS-1'' ''Drilling'' ''0'' ''10'' ''0'',
        ex_step ''WS-2'' ''Inspection'' ''5'' ''0'' ''0''] ''01/02/24''
     = Inr (True, ''WS-1'', ''Drilling'', ''10'', ''Inspection'', ''10:30'')"
  by (simp add: get_yield_def get_yielded_date_def get_yield_data_def item_def slice_m8_m3_def ex_defs)

text \<open>
  C3, amended. On a table whose last step has released quantity 5 and whose earlier steps
  all have a positive released quantity, \<^verbatim>\<open>get_yield\<close> reports no match, whatever the
  date.
\<close>

theorem C3_no_released_step:
  assumes "2 \<le> length tbl"
    and "atof env (frgmge (last tbl)) = 5"
    and "\<forall>i. 1 \<le> i \<and> i < length tbl - 1 \<longrightarrow> 0 < atof env (frgmge (tbl ! i))"
  shows "get_yield env tbl d = Inr (False, ''N/A'', ''N/A'', ''N/A'', ''N/A'', ''N/A'')"
proof -
  have "tbl \<noteq> []" using assms(1) by auto
  then have l: "last tbl = tbl ! (length tbl - 1)" by (rule last_conv_nth)
  have "\<forall>i. 1 \<le> i \<and> i \<le> length tbl - 1 \<longrightarrow> 0 < atof env (frgmge (tbl ! i))"
  proof (intro allI impI)
    fix i assume i: "1 \<le> i \<and> i \<le> length tbl - 1"
    show "0 < atof env (frgmge (tbl ! i))"
    proof (cases "i = length tbl - 1")
      case True
      then show ?thesis using assms(2) l by simp
    next
      case False
      with i have "i < length tbl - 1" by arith
      with i assms(3) show ?thesis by blast
    qed
  qed
  then have "gy_loop env tbl d (length tbl - 1) = Inr no_yield" by (rule gy_loop_none)
  then show ?thesis by (simp add: get_yield_def no_yield_def)
qed

theorem C3_no_released_step_witness:
  "get_yield ex_env
     [ex_header,
      ex_step ''WS-1'' ''Drilling'' ''10'' ''0'' ''0'',
      ex_step ''WS-2'' ''Inspection'' ''5'' ''0'' ''0''] ''01/02/24''
   = Inr (False, ''N/A'', ''N/A'', ''N/A'', ''N/A'', ''N/A'')"
proof (rule C3_no_released_step)
  let ?t = "[ex_header,
      ex_step ''WS-1'' ''Drilling'' ''10'' ''0'' ''0'',
      ex_step ''WS-2'' ''Inspection'' ''5'' ''0'' ''0'']"
  show "\<forall>i. 1 \<le> i \<and> i < length ?t - 1 \<longrightarrow> 0 < atof ex_env (frgmge (?t ! i))"
  proof (intro allI impI)
    fix i assume "1 \<le> i \<and> i < length ?t - 1"
    then have "i = 1" by simp
    then show "0 < atof ex_env (frgmge (?t ! i))" by (simp add: ex_defs)
  qed
qed (simp_all add: ex_defs)

section \<open>get_yield: the next process\<close>

text \<open>
  C9. On a table whose last step is a 1st Off step that is not fully released, whose
  step before the last is fully released, and for which the date of the latest
  confirmation of that step is the date asked for, \<^verbatim>\<open>get_yield\<close> reads
  \<^verbatim>\<open>prod_table[i + 2]\<close> past the end of the table and raises \<^verbatim>\<open>IndexError\<close>.
\<close>

theorem C9_next_process_past_the_end:
  assumes "3 \<le> length tbl"
    and "0 < atof env (frgmge (last tbl))"
    and "atof env (frgmge (tbl ! (length tbl - 2))) \<le> 0"
    and "artbez (last tbl) = ''1st Off''"
    and "get_yielded_date env (order_text (tbl ! (length tbl - 2)))
           (atof env (ycomplete (tbl ! (length tbl - 2)))
            + atof env (mrbqty (tbl ! (length tbl - 2)))
            + atof env (rverlust (tbl ! (length tbl - 2)))) = Inr y"
    and "item0 y = d"
  shows "get_yield env tbl d = Inl IndexError"
proof -
  obtain k where k: "length tbl = Suc (Suc (Suc k))"
    using assms(1) by (metis Suc_le_D numeral_3_eq_3 Suc_le_mono le0 add_Suc_right nat_le_iff_add add_Suc)
  have "tbl \<noteq> []" using k by auto
  then have l: "last tbl = tbl ! Suc (Suc k)" using k by (simp add: last_conv_nth)
  have two: "length tbl - 2 = Suc k" using k by simp
  show ?thesis
    using assms(2-6) by (simp add: get_yield_def k l two item_def)
qed

theorem C9_next_process_past_the_end_witness:
  "get_yield ex_env
     [ex_header,
      ex_step ''WS-1'' ''Drilling'' ''0'' ''10'' ''0'',
      ex_step ''WS-2'' ''1st Off'' ''5'' ''0'' ''0''] ''01/02/24''
   = Inl IndexError"
  by (rule C9_next_process_past_the_end [where y = "DateStamp ''01/02/24'' ''10:30''"])
     (simp_all add: get_yielded_date_def get_yield_data_def slice_m8_m3_def ex_defs)

section \<open>get_yielded_date: the backward scan of the confirmations\<close>






lemma answered_append: "answered (xs @ ys) = answered xs @ answered ys"
  by (simp add: answered_def)

lemma answered_Inr: "answered (map Inr pre) = pre"
  by (induction pre) (simp_all add: answered_def)












section \<open>merge_processing_data: a group without a work order\<close>

lemma wo_nums_loop_no_match:
  assumes "\<forall>l\<in>set table. \<not> (contains ''WO'' (ptext l) \<and> artikel l = process)"
  shows "wo_nums_loop table process wo_list = wo_list"
  using assms by (induction table) auto

lemma emit_no_work_order:
  assumes "get_wo_nums env (col4 (data st ! prev_row st)) (col3 (data st ! prev_row st)) = Inr []"
  shows "emit env i st = Inl IndexError"
  using assms by (simp add: emit_def Let_def item_def)

lemma merge_loop_first_group_fails:
  assumes "i \<le> n" and "n = length rows" and "data st = rows" and "prev_row st = 0"
    and "\<forall>r\<in>set rows. \<exists>q. col6 r = Str q"
    and "get_wo_nums env (col4 (rows ! 0)) (col3 (rows ! 0)) = Inr []"
  shows "merge_loop env n i st = Inl IndexError"
  using assms
proof (induction "n - i" arbitrary: i st)
  case 0
  then have "i = n" by simp
  moreover have "emit env n st = Inl IndexError"
    using 0 by (simp add: emit_no_work_order)
  ultimately show ?case
    by (subst merge_loop.simps) simp
next
  case (Suc d)
  then have lt: "i < n" by arith
  then have "rows ! i \<in> set rows" using Suc.prems(2) by simp
  then obtain q where q: "col6 (rows ! i) = Str q" using Suc.prems(5) by blast
  have emit1: "emit env i st' = Inl IndexError"
    if "data st' = rows" and "prev_row st' = 0" for st'
    using that Suc.prems(6) by (simp add: emit_no_work_order)
  have next1: "merge_loop env n (Suc i) st' = Inl IndexError"
    if "data st' = rows" and "prev_row st' = 0" for st'
  proof (rule Suc.hyps(1))
    show "d = n - Suc i" using Suc.hyps(2) by arith
    show "Suc i \<le> n" using lt by arith
  qed (use that Suc.prems in simp_all)
  show ?case
    using lt q Suc.prems(3,4)
    by (subst merge_loop.simps) (simp add: cell_atof_def emit1 next1)
qed

text \<open>
  C10. \<^verbatim>\<open>merge_processing_data\<close> is partial on sorted input too: when the purchase order
  of the first row has no line that is tagged WO and names the row's process,
  \<^verbatim>\<open>get_wo_nums\<close> returns the empty list, and the emission of the first group reads
  \<^verbatim>\<open>wo_list[0]\<close> and raises \<^verbatim>\<open>IndexError\<close>; no merged row is returned.
\<close>

theorem C10_group_without_work_order:
  assumes "rows \<noteq> []"
    and "\<forall>r\<in>set rows. \<exists>q. col6 r = Str q"
    and "po_url env (col4 (rows ! 0)) = Inr lines"
    and "\<forall>l\<in>set lines. \<not> (contains ''WO'' (ptext l) \<and> artikel l = col3 (rows ! 0))"
  shows "merge_processing_data env rows = Inl IndexError"
proof -
  have wo: "get_wo_nums env (col4 (rows ! 0)) (col3 (rows ! 0)) = Inr []"
    using assms(3,4) by (simp add: get_wo_nums_def wo_nums_loop_no_match)
  have "rows ! 0 \<in> set rows" using assms(1) by simp
  then obtain q where q: "col6 (rows ! 0) = Str q" using assms(2) by blast
  have "1 \<le> length rows" using assms(1) by (cases rows) auto
  then have "merge_loop env (length rows) 1
          \<lparr>data = rows, merged_data = [], prev_pn = col3 (rows ! 0), prev_loc = col5 (rows ! 0),
           prev_qty = atof env q, prev_row = 0, merged = False, curr_pn = ''No Value'',
           curr_loc = None, curr_qty = None, lookups = []\<rparr> = Inl IndexError"
    using assms(2) wo by (intro merge_loop_first_group_fails [where rows = rows]) simp_all
  then show ?thesis
    using assms(1) q by (simp add: merge_processing_data_def item_def cell_atof_def)
qed

theorem C10_group_without_work_order_witness:
  "merge_processing_data ex_env [ex_row ''PO2'' ''10'', ex_row ''PO2'' ''5''] = Inl IndexError"
  by (rule C10_group_without_work_order
        [where lines = "[\<lparr>ptext = ''Rush order'', artikel = ''ANODIZE''\<rparr>]"])
     (simp_all add: ex_defs)

section \<open>merge_processing_data: one group\<close>








end
